theory Spec2Isabelle
  imports Main "HOL-Library.AList"
begin

section \<open>Python string operations used by the two modules\<close>

text \<open>
  Strings are lists of characters. The two modules use five operations of Python's
  \<^verbatim>\<open>str\<close> and \<^verbatim>\<open>re\<close>: \<^verbatim>\<open>endswith\<close>, the substring test \<^verbatim>\<open>in\<close>,
  \<^verbatim>\<open>strip('\n')\<close>, \<^verbatim>\<open>re.sub(';\s+', ';\n', _)\<close> and \<^verbatim>\<open>split(';\n')\<close>.
\<close>

text \<open>\<^verbatim>\<open>s.endswith(suf)\<close>.\<close>

definition endswith :: "string \<Rightarrow> string \<Rightarrow> bool" where
  "endswith s suf = (length suf \<le> length s \<and> drop (length s - length suf) s = suf)"

text \<open>\<^verbatim>\<open>sub in s\<close> on strings: \<open>sub\<close> occurs in \<open>s\<close> as a contiguous run.\<close>

fun str_contains :: "string \<Rightarrow> string \<Rightarrow> bool" where
  "str_contains sub [] = (sub = [])"
| "str_contains sub (c # cs) = (take (length sub) (c # cs) = sub \<or> str_contains sub cs)"

text \<open>
  \<^verbatim>\<open>s.strip('\n')\<close>: every leading and every trailing line break is removed.
\<close>

definition strip_nl :: "string \<Rightarrow> string" where
  "strip_nl s =
     rev (dropWhile (\<lambda>c. c = CHR ''\<newline>'') (rev (dropWhile (\<lambda>c. c = CHR ''\<newline>'') s)))"

text \<open>
  The class \<^verbatim>\<open>\s\<close> of a Python 3 text pattern, on the code points below 256: tab, line
  feed, vertical tab, form feed, carriage return, the four separators 28 to 31, space,
  next-line (133) and no-break space (160).
\<close>

definition is_space :: "char \<Rightarrow> bool" where
  "is_space c = (of_char c \<in> set [9, 10, 11, 12, 13, 28, 29, 30, 31, 32, 133, 160 :: nat])"

text \<open>
  \<^verbatim>\<open>re.compile(r';\s+').sub(';\n', s)\<close> (impala_query.py, lines 235 and 236): scanning from
  the left, a semicolon followed by at least one whitespace character is replaced, together
  with the longest run of whitespace after it, by a semicolon and one line break.
\<close>

function regex_sub :: "string \<Rightarrow> string" where
  "regex_sub [] = []"
| "regex_sub (c # cs) =
     (if c = CHR '';'' \<and> cs \<noteq> [] \<and> is_space (hd cs)
      then CHR '';'' # CHR ''\<newline>'' # regex_sub (dropWhile is_space cs)
      else c # regex_sub cs)"
  by pat_completeness auto
termination
  by (relation "measure length") (auto simp: length_dropWhile_le less_Suc_eq_le)

text \<open>
  \<^verbatim>\<open>s.split(';\n')\<close>: the pieces of \<open>s\<close> between the occurrences of the two-character
  separator, found from the left; \<open>split_from cur s\<close> carries the piece read so far.
  The result is never the empty list: \<^verbatim>\<open>''.split(';\n')\<close> is \<^verbatim>\<open>['']\<close>.
\<close>

fun split_from :: "string \<Rightarrow> string \<Rightarrow> string list" where
  "split_from cur [] = [cur]"
| "split_from cur [c] = [cur @ [c]]"
| "split_from cur (c # d # cs) =
     (if c = CHR '';'' \<and> d = CHR ''\<newline>''
      then cur # split_from [] cs
      else split_from (cur @ [c]) (d # cs))"

definition split_semi_nl :: "string \<Rightarrow> string list" where
  "split_semi_nl s = split_from [] s"

text \<open>\<^verbatim>\<open>';\n'.join(xs)\<close>, the inverse operation the round-trip property speaks of.\<close>

fun join_semi_nl :: "string list \<Rightarrow> string" where
  "join_semi_nl [] = []"
| "join_semi_nl [x] = x"
| "join_semi_nl (x # y # ys) = x @ '';\<newline>'' @ join_semi_nl (y # ys)"

section \<open>Parameters, the database driver and the outcome of a run\<close>

text \<open>
  The module parameters the two \<^verbatim>\<open>main\<close> functions read. An absent parameter is
  Python's \<^verbatim>\<open>None\<close>. The Impala module has the extra parameter \<^verbatim>\<open>query_log\<close>.
\<close>

datatype arguments = Positional "string list" | Named "(string \<times> string) list"

record params =
  query :: "string option"
  positional_args :: "string list option"
  named_args :: "(string \<times> string) list option"
  fact :: "string option"

record impala_params = params +
  query_log :: "string option"

text \<open>A result row as the modules return it: a dictionary from column name to value.\<close>

type_synonym row = "(string \<times> string) list"

text \<open>
  What \<^verbatim>\<open>cursor.fetchall()\<close> does: it returns rows, raises the driver's
  \<^verbatim>\<open>ProgrammingError\<close> (the exception both modules name in their handler), or raises
  something else.
\<close>

datatype 'r fetched = Rows "'r list" | ProgrammingError | OtherError

text \<open>
  The cursor of the database driver. Its answers depend on the statements submitted on it
  so far, so every field takes that history. \<open>execute_ok h q a\<close> tells whether
  \<^verbatim>\<open>cursor.execute(q, a)\<close> returns (rather than raises) after the statements \<open>h\<close>.
  The PostgreSQL cursor is a \<^verbatim>\<open>RealDictCursor\<close> whose rows are dictionaries
  (\<open>'r = row\<close>); the Impala cursor returns tuples (\<open>'r = string list\<close>) that the module
  pairs with \<^verbatim>\<open>cursor.description\<close>.
\<close>

record 'r cursor =
  execute_ok :: "string list \<Rightarrow> string \<Rightarrow> arguments option \<Rightarrow> bool"
  cursor_rowcount :: "string list \<Rightarrow> int"
  fetchall :: "string list \<Rightarrow> 'r fetched"
  description :: "string list \<Rightarrow> string list"
  statusmessage :: "string list \<Rightarrow> string"

text \<open>
  Everything outside the module that a run depends on: whether the driver library was
  imported (\<^verbatim>\<open>HAS_PSYCOPG2\<close>, \<^verbatim>\<open>HAS_IMPYLA\<close>), whether \<^verbatim>\<open>connect\<close> returns,
  the readable files (\<open>None\<close>: \<^verbatim>\<open>open\<close> or \<^verbatim>\<open>read\<close> raises), the content found when a
  path is opened in mode \<^verbatim>\<open>'a+'\<close> (\<open>None\<close>: it cannot be opened or created), whether
  Ansible runs the task in check mode, and the cursor.
\<close>

record 'r env =
  has_driver :: bool
  connect_ok :: bool
  read_file :: "string \<Rightarrow> string option"
  open_log :: "string \<Rightarrow> string option"
  check_mode :: bool
  cursor :: "'r cursor"

text \<open>
  The ways a run ends before the \<^verbatim>\<open>exit_json\<close> call at the end of \<^verbatim>\<open>main\<close>: the
  exit that \<^verbatim>\<open>AnsibleModule\<close> makes by itself when the task runs in check mode and the
  module declares \<^verbatim>\<open>supports_check_mode=False\<close> (it calls
  \<^verbatim>\<open>exit_json(skipped=True)\<close>, which reports nothing as changed), the \<^verbatim>\<open>fail_json\<close>
  calls of the modules, and the Python exceptions no handler of the modules catches.
\<close>

datatype error =
    SkippedInCheckMode
  | ConfigurationConflict
  | MissingDriver
  | ConnectionFailed
  | AttributeError
  | SourceUnavailable string
  | MissingQueryLog
  | LogUnavailable string
  | UnboundLocalError string
  | StatementExecutionFailed string "arguments option"
  | FetchFailed
  | NameError string

text \<open>The effects of a run on the outside world, in the order they happen.\<close>

datatype event =
    Connect
  | ReadFile string
  | OpenLog string
  | Execute string "arguments option"
  | LogWrite string
  | CloseLog
  | Commit
  | Rollback
  | CloseConn

text \<open>The keyword arguments of \<^verbatim>\<open>module.exit_json\<close>.\<close>

record exit_json =
  changed :: bool
  stout_lines :: string
  query_results :: "row list"
  ansible_facts :: "(string option \<times> row list) list"
  rowcount :: int

text \<open>
  The argument preparation of both modules: positional arguments when given, else named
  arguments when given, else \<^verbatim>\<open>None\<close>.
\<close>

definition prepare_args :: "'a params_scheme \<Rightarrow> arguments option" where
  "prepare_args p =
     (case positional_args p of
        Some a \<Rightarrow> Some (Positional a)
      | None \<Rightarrow> (case named_args p of Some n \<Rightarrow> Some (Named n) | None \<Rightarrow> None))"

text \<open>
  The \<^verbatim>\<open>mutually_exclusive\<close> check of \<^verbatim>\<open>positional_args\<close> against
  \<^verbatim>\<open>named_args\<close> that \<^verbatim>\<open>AnsibleModule\<close> makes for both modules before
  anything else: giving both parameters is rejected.
\<close>

definition args_conflict :: "'a params_scheme \<Rightarrow> bool" where
  "args_conflict p = (positional_args p \<noteq> None \<and> named_args p \<noteq> None)"

section \<open>postgresql_query.py\<close>

text \<open>
  Lines 304 to 350 of \<^verbatim>\<open>main\<close>: fetching, the fact, the change flag, the end of the
  transaction and \<^verbatim>\<open>exit_json\<close>. \<^verbatim>\<open>ansible_facts\<close> is assigned only in the branch
  \<^verbatim>\<open>cursor.rowcount > 0\<close>; elsewhere the name is unbound (\<open>None\<close> below) and reading it in
  the call of \<^verbatim>\<open>exit_json\<close> raises \<^verbatim>\<open>UnboundLocalError\<close>, after the transaction was
  ended and the connection closed.
\<close>

definition pg_fetch ::
  "row cursor \<Rightarrow> string option \<Rightarrow> string list
    \<Rightarrow> error + (row list \<times> (string option \<times> row list) list option \<times> int)" where
  "pg_fetch cur fct h =
     (if cursor_rowcount cur h > 0 then
        (case fetchall cur h of
           Rows rs \<Rightarrow> Inr (rs, Some [(fct, rs)], int (length rs))
         | ProgrammingError \<Rightarrow> Inr ([], Some [(fct, [])], 0)
         | OtherError \<Rightarrow> Inl FetchFailed)
      else Inr ([], None, 0))"

definition pg_report ::
  "row env \<Rightarrow> params \<Rightarrow> string list \<Rightarrow> event list \<Rightarrow> event list \<times> (error + exit_json)" where
  "pg_report env p h tr =
     (case pg_fetch (cursor env) (fact p) h of
        Inl e \<Rightarrow> (tr, Inl e)
      | Inr (results, facts, n) \<Rightarrow>
          (let status = statusmessage (cursor env) h;
               chg = (\<not> str_contains ''SELECT'' status);
               tr' = tr @ (if chg then [if check_mode env then Rollback else Commit] else [])
                        @ [CloseConn]
           in case facts of
                None \<Rightarrow> (tr', Inl (UnboundLocalError ''ansible_facts''))
              | Some fs \<Rightarrow>
                  (tr', Inr \<lparr>changed = chg, stout_lines = status, query_results = results,
                             ansible_facts = fs, rowcount = n\<rparr>)))"

text \<open>
  \<^verbatim>\<open>main\<close> of postgresql_query.py. The result is the trace of effects and either the
  error that ended the run or the output passed to \<^verbatim>\<open>exit_json\<close>. The module is
  declared with \<^verbatim>\<open>supports_check_mode=True\<close> (line 232), so it runs in check mode too and
  reads \<^verbatim>\<open>module.check_mode\<close> only at line 340.
\<close>

definition pg_main :: "row env \<Rightarrow> params \<Rightarrow> event list \<times> (error + exit_json)" where
  "pg_main env p =
     (if args_conflict p then ([], Inl ConfigurationConflict)
      else if \<not> has_driver env then ([], Inl MissingDriver)
      else if \<not> connect_ok env then ([Connect], Inl ConnectionFailed)
      else
        (case query p of
           None \<Rightarrow> ([Connect], Inl AttributeError)
         | Some path \<Rightarrow>
             (if endswith path ''.sql'' \<and> read_file env path = None
              then ([Connect, ReadFile path], Inl (SourceUnavailable path))
              else
                (let q = (if endswith path ''.sql''
                          then strip_nl (the (read_file env path)) else path);
                     tr = Connect # (if endswith path ''.sql'' then [ReadFile path] else [])
                            @ [Execute q (prepare_args p)]
                 in if execute_ok (cursor env) [] q (prepare_args p)
                    then pg_report env p [q] tr
                    else (tr, Inl (StatementExecutionFailed q (prepare_args p)))))))"

section \<open>impala_query.py\<close>

text \<open>
  Line 236: the statements of the run. \<^verbatim>\<open>sql_file\<close> is assigned only when the query
  parameter ends in \<^verbatim>\<open>.sql\<close>; otherwise the name is unbound (\<open>None\<close> below) and the
  test \<^verbatim>\<open>if sql_file\<close> raises \<^verbatim>\<open>UnboundLocalError\<close>. An empty file content is false in
  Python, so the query parameter itself (the path) becomes the only statement.
\<close>

definition split_statements :: "string \<Rightarrow> string list" where
  "split_statements sql_file = filter (\<lambda>line. line \<noteq> []) (split_semi_nl (regex_sub sql_file))"

definition resolve_queries :: "string \<Rightarrow> string option \<Rightarrow> error + string list" where
  "resolve_queries qry sql_file =
     (case sql_file of
        None \<Rightarrow> Inl (UnboundLocalError ''sql_file'')
      | Some f \<Rightarrow> Inr (if f \<noteq> [] then split_statements f else [qry]))"

text \<open>Line 239: the entries of the replay log, from its whole content.\<close>

definition already_ran_queries :: "string \<Rightarrow> string list" where
  "already_ran_queries content =
     filter (\<lambda>line. line \<noteq> []) (split_semi_nl (strip_nl content))"

text \<open>Line 252: what is written to the log for a statement.\<close>

definition log_entry :: "string \<Rightarrow> string" where
  "log_entry q = q @ ''\<newline>''"

text \<open>
  The state the loop of lines 241 to 256 changes: the statements submitted on the cursor,
  the text appended to the replay log (the log is opened in append mode, so its content
  afterwards is its content before followed by this text), and the trace of effects.
\<close>

record session =
  submitted :: "string list"
  appended :: string
  trace :: "event list"

text \<open>
  Lines 241 to 256. A statement found in \<open>already\<close> is passed over. Another one is
  submitted; when \<^verbatim>\<open>execute\<close> raises, \<^verbatim>\<open>fail_json\<close> ends the run (\<open>Some\<close> error),
  otherwise the log entry is written before the next statement is looked at.
\<close>

fun run_queries ::
  "'r cursor \<Rightarrow> arguments option \<Rightarrow> string list \<Rightarrow> string list \<Rightarrow> session
    \<Rightarrow> session \<times> error option" where
  "run_queries cur args already [] s = (s, None)"
| "run_queries cur args already (q # qs) s =
     (if q \<notin> set already then
        (if execute_ok cur (submitted s) q args
         then run_queries cur args already qs
                \<lparr>submitted = submitted s @ [q],
                 appended = appended s @ log_entry q,
                 trace = trace s @ [Execute q args, LogWrite (log_entry q)]\<rparr>
         else (\<lparr>submitted = submitted s @ [q],
                appended = appended s,
                trace = trace s @ [Execute q args]\<rparr>,
               Some (StatementExecutionFailed q args)))
      else run_queries cur args already qs s)"

text \<open>
  Lines 268 to 270: each fetched tuple becomes a dictionary, built in the order of
  \<^verbatim>\<open>cursor.description\<close>; a later column of the same name overwrites the value and keeps
  the place of the earlier one. A tuple shorter than the description raises
  \<^verbatim>\<open>IndexError\<close> (\<open>None\<close>).
\<close>

definition shape_row :: "string list \<Rightarrow> string list \<Rightarrow> row option" where
  "shape_row desc r =
     (if length r < length desc then None
      else Some (foldl (\<lambda>d (idx, name). AList.update name (r ! idx) d) [] (enumerate 0 desc)))"

text \<open>
  Lines 261 to 281: fetching and the fact. The handler of the \<^verbatim>\<open>try\<close> block is
  \<^verbatim>\<open>except impala.error.ProgrammingError\<close>, but the module binds no name
  \<^verbatim>\<open>impala\<close> (line 143 imports only \<^verbatim>\<open>connect\<close> from \<^verbatim>\<open>impala.dbapi\<close>). So
  whatever is raised inside the block, by \<^verbatim>\<open>fetchall\<close> or by the indexing of a short
  tuple, evaluating the handler raises \<^verbatim>\<open>NameError\<close>, which nothing catches.
\<close>

definition impala_fetch ::
  "string list cursor \<Rightarrow> string option \<Rightarrow> string list
    \<Rightarrow> error + (row list \<times> (string option \<times> row list) list \<times> int)" where
  "impala_fetch cur fct h =
     (if cursor_rowcount cur h > 0 then
        (case fetchall cur h of
           Rows rs \<Rightarrow>
             (case those (map (shape_row (description cur h)) rs) of
                None \<Rightarrow> Inl (NameError ''impala'')
              | Some results \<Rightarrow>
                  Inr (results,
                       (case fct of Some f \<Rightarrow> [(Some f, results)] | None \<Rightarrow> []),
                       int (length results)))
         | ProgrammingError \<Rightarrow> Inl (NameError ''impala'')
         | OtherError \<Rightarrow> Inl (NameError ''impala''))
      else Inr ([], [], 0))"

text \<open>Lines 258 to 293: closing the log, fetching, commit and \<^verbatim>\<open>exit_json\<close>.\<close>

definition impala_report ::
  "string list env \<Rightarrow> impala_params \<Rightarrow> session \<Rightarrow> session \<times> (error + exit_json)" where
  "impala_report env p s =
     (case impala_fetch (cursor env) (fact p) (submitted s) of
        Inl e \<Rightarrow> (s\<lparr>trace := trace s @ [CloseLog]\<rparr>, Inl e)
      | Inr (results, facts, n) \<Rightarrow>
          (s\<lparr>trace := trace s @ [CloseLog, Commit, CloseConn]\<rparr>,
           Inr \<lparr>changed = True, stout_lines = statusmessage (cursor env) (submitted s),
                query_results = results, ansible_facts = facts, rowcount = n\<rparr>))"

text \<open>
  Lines 163 to 239: everything before the loop. The module is declared with
  \<^verbatim>\<open>supports_check_mode=False\<close> (line 177), so in check mode the constructor of
  \<^verbatim>\<open>AnsibleModule\<close> ends the run as skipped before it checks the arguments and before
  anything of \<^verbatim>\<open>main\<close> runs. On success the result holds the statements of the run and
  the content of the replay log read at line 239.
\<close>

definition impala_prepare ::
  "string list env \<Rightarrow> impala_params \<Rightarrow> event list \<times> (error + (string list \<times> string))" where
  "impala_prepare env p =
     (if check_mode env then ([], Inl SkippedInCheckMode)
      else if args_conflict p then ([], Inl ConfigurationConflict)
      else if \<not> has_driver env then ([], Inl MissingDriver)
      else if \<not> connect_ok env then ([Connect], Inl ConnectionFailed)
      else
        (case query p of
           None \<Rightarrow> ([Connect], Inl AttributeError)
         | Some path \<Rightarrow>
             (if endswith path ''.sql'' \<and> read_file env path = None
              then ([Connect, ReadFile path], Inl (SourceUnavailable path))
              else
                (let sql_file = (if endswith path ''.sql''
                                 then Some (strip_nl (the (read_file env path))) else None);
                     tr = Connect # (if endswith path ''.sql'' then [ReadFile path] else [])
                 in case query_log p of
                      None \<Rightarrow> (tr, Inl MissingQueryLog)
                    | Some lp \<Rightarrow>
                        (if lp = [] then (tr, Inl MissingQueryLog)
                         else
                           (case open_log env lp of
                              None \<Rightarrow> (tr @ [OpenLog lp], Inl (LogUnavailable lp))
                            | Some content \<Rightarrow>
                                (case resolve_queries path sql_file of
                                   Inl e \<Rightarrow> (tr @ [OpenLog lp], Inl e)
                                 | Inr queries \<Rightarrow>
                                     (tr @ [OpenLog lp], Inr (queries, content)))))))))"

text \<open>\<^verbatim>\<open>main\<close> of impala_query.py.\<close>

definition impala_main ::
  "string list env \<Rightarrow> impala_params \<Rightarrow> session \<times> (error + exit_json)" where
  "impala_main env p =
     (case impala_prepare env p of
        (tr, Inl e) \<Rightarrow> (\<lparr>submitted = [], appended = [], trace = tr\<rparr>, Inl e)
      | (tr, Inr (queries, content)) \<Rightarrow>
          (case run_queries (cursor env) (prepare_args p) (already_ran_queries content) queries
                  \<lparr>submitted = [], appended = [], trace = tr\<rparr> of
             (s, Some e) \<Rightarrow> (s, Inl e)
           | (s, None) \<Rightarrow> impala_report env p s))"

section \<open>The wording of the claims\<close>

text \<open>
  The definitions of this section are not translations of the code: they state, in the
  words of a claim or of a comment of the source, what the code is compared with.

  Claim C1 describes the entries of the replay log as its content with a trailing line
  break stripped, split at semicolon and line break. (The source's entries are
  \<open>already_ran_queries\<close>: every leading and trailing line break stripped, empty entries
  dropped.)
\<close>

definition strip_one_trailing_nl :: "string \<Rightarrow> string" where
  "strip_one_trailing_nl s = (if s \<noteq> [] \<and> last s = CHR ''\<newline>'' then butlast s else s)"

definition claimed_log_entries :: "string \<Rightarrow> string list" where
  "claimed_log_entries content = split_semi_nl (strip_one_trailing_nl content)"

text \<open>
  The comment at line 234 of impala_query.py says that the content is split only at the
  ends of lines. \<open>delimiters_end_lines\<close> holds of a content in which every semicolon
  followed by whitespace has a line break in that run of whitespace;
  \<open>single_break_delimiters\<close> holds when each such run is exactly one line break.
\<close>

fun delimiters_end_lines :: "string \<Rightarrow> bool" where
  "delimiters_end_lines [] = True"
| "delimiters_end_lines (c # cs) =
     ((c = CHR '';'' \<and> cs \<noteq> [] \<and> is_space (hd cs)
         \<longrightarrow> CHR ''\<newline>'' \<in> set (takeWhile is_space cs))
      \<and> delimiters_end_lines cs)"

fun single_break_delimiters :: "string \<Rightarrow> bool" where
  "single_break_delimiters [] = True"
| "single_break_delimiters (c # cs) =
     ((c = CHR '';'' \<and> cs \<noteq> [] \<and> is_space (hd cs)
         \<longrightarrow> hd cs = CHR ''\<newline>'' \<and> (tl cs = [] \<or> \<not> is_space (hd (tl cs))))
      \<and> single_break_delimiters cs)"

section \<open>Example runs\<close>

text \<open>
  A replay log holding two entries and a query file of three statements, on a cursor that
  accepts every statement and reports no rows.
\<close>

definition replay_cursor :: "string list cursor" where
  "replay_cursor =
     \<lparr>execute_ok = (\<lambda>h q a. True), cursor_rowcount = (\<lambda>h. 0), fetchall = (\<lambda>h. Rows []),
      description = (\<lambda>h. []), statusmessage = (\<lambda>h. ''OK'')\<rparr>"

definition replay_env :: "string list env" where
  "replay_env =
     \<lparr>has_driver = True, connect_ok = True,
      read_file = (\<lambda>path. if path = ''batch.sql''
                     then Some ''DROP TABLE a;\<newline>DROP TABLE b;\<newline>DROP TABLE c;\<newline>'' else None),
      open_log = (\<lambda>path. if path = ''ran.log''
                     then Some ''DROP TABLE a;\<newline>DROP TABLE b;\<newline>'' else None),
      check_mode = False, cursor = replay_cursor\<rparr>"

definition replay_params :: impala_params where
  "replay_params =
     \<lparr>query = Some ''batch.sql'', positional_args = None, named_args = None, fact = None,
      query_log = Some ''ran.log''\<rparr>"

text \<open>
  Further example runs: a cursor that accepts every statement and gives the same answers
  whatever was submitted, an environment with one query file \<^verbatim>\<open>batch.sql\<close> and one
  replay log \<^verbatim>\<open>ran.log\<close>, and parameters without arguments.
\<close>

definition const_cursor :: "int \<Rightarrow> 'r fetched \<Rightarrow> string list \<Rightarrow> string \<Rightarrow> 'r cursor" where
  "const_cursor n f d st =
     \<lparr>execute_ok = (\<lambda>h q a. True), cursor_rowcount = (\<lambda>h. n), fetchall = (\<lambda>h. f),
      description = (\<lambda>h. d), statusmessage = (\<lambda>h. st)\<rparr>"

definition sample_env :: "string \<Rightarrow> string \<Rightarrow> bool \<Rightarrow> 'r cursor \<Rightarrow> 'r env" where
  "sample_env sql logtext chk cur =
     \<lparr>has_driver = True, connect_ok = True,
      read_file = (\<lambda>path. if path = ''batch.sql'' then Some sql else None),
      open_log = (\<lambda>path. if path = ''ran.log'' then Some logtext else None),
      check_mode = chk, cursor = cur\<rparr>"

definition file_params :: "string \<Rightarrow> string option \<Rightarrow> impala_params" where
  "file_params q f =
     \<lparr>query = Some q, positional_args = None, named_args = None, fact = f,
      query_log = Some ''ran.log''\<rparr>"

definition pg_params :: "string \<Rightarrow> string option \<Rightarrow> params" where
  "pg_params q f = \<lparr>query = Some q, positional_args = None, named_args = None, fact = f\<rparr>"

definition two_inserts :: string where
  "two_inserts = ''INSERT INTO t VALUES (1);\<newline>INSERT INTO t VALUES (2);\<newline>''"

definition repeated_insert :: string where
  "repeated_insert = ''INSERT INTO t VALUES (1);\<newline>INSERT INTO t VALUES (1);\<newline>INSERT INTO t VALUES (2);\<newline>''"

definition no_rows :: "string list cursor" where
  "no_rows = const_cursor 0 (Rows []) [] ''OK''"

definition two_rows :: "row list" where
  "two_rows = [ [(''id'', ''1''), (''name'', ''ann'')], [(''id'', ''2''), (''name'', ''bob'')]]"

definition pg_two_rows :: "row cursor" where
  "pg_two_rows = const_cursor 2 (Rows two_rows) [''id'', ''name''] ''SELECT 2''"

definition impala_two_rows :: "string list cursor" where
  "impala_two_rows = const_cursor 2 (Rows [ [''1'', ''ann''], [''2'', ''bob'']]) [''id'', ''name''] ''OK''"

definition pg_zero_rows :: "row cursor" where
  "pg_zero_rows = const_cursor 0 (Rows []) [] ''SELECT 0''"

definition pg_update :: "row cursor" where
  "pg_update = const_cursor 3 ProgrammingError [] ''UPDATE 3''"

definition impala_update :: "string list cursor" where
  "impala_update = const_cursor 3 ProgrammingError [] ''OK''"

text \<open>
  A cursor that refuses every statement, and a query file of two \<^verbatim>\<open>DROP\<close> statements.
\<close>

definition refusing_cursor :: "string list cursor" where
  "refusing_cursor =
     \<lparr>execute_ok = (\<lambda>h q a. False), cursor_rowcount = (\<lambda>h. 0), fetchall = (\<lambda>h. Rows []),
      description = (\<lambda>h. []), statusmessage = (\<lambda>h. ''OK'')\<rparr>"

definition two_drops :: string where
  "two_drops = ''DROP TABLE a;\<newline>DROP TABLE b;\<newline>''"

section \<open>The replay loop\<close>

text \<open>
  A loop that ends without an error has submitted exactly the statements that are not in
  \<open>already\<close>, in order, and has written one log entry after each.
\<close>

lemma run_queries_done:
  "snd (run_queries cur args already qs s) = None \<Longrightarrow>
     fst (run_queries cur args already qs s) =
       \<lparr>submitted = submitted s @ filter (\<lambda>q. q \<notin> set already) qs,
        appended = appended s @ concat (map log_entry (filter (\<lambda>q. q \<notin> set already) qs)),
        trace = trace s @ concat (map (\<lambda>q. [Execute q args, LogWrite (log_entry q)])
                                   (filter (\<lambda>q. q \<notin> set already) qs))\<rparr>"
proof (induction qs arbitrary: s)
  case Nil
  then show ?case by simp
next
  case (Cons q qs)
  show ?case
  proof (cases "q \<in> set already")
    case True
    with Cons show ?thesis by simp
  next
    case False
    show ?thesis
    proof (cases "execute_ok cur (submitted s) q args")
      case True
      with False Cons.prems Cons.IH[of "\<lparr>submitted = submitted s @ [q],
                 appended = appended s @ log_entry q,
                 trace = trace s @ [Execute q args, LogWrite (log_entry q)]\<rparr>"]
      show ?thesis by simp
    next
      case f: False
      with False Cons.prems show ?thesis by simp
    qed
  qed
qed

lemma run_queries_submitted_sub:
  "set (submitted (fst (run_queries cur args already qs s)))
     \<subseteq> set (submitted s) \<union> (set qs - set already)"
proof (induction qs arbitrary: s)
  case Nil
  then show ?case by simp
next
  case (Cons q qs)
  let ?s1 = "\<lparr>submitted = submitted s @ [q], appended = appended s @ log_entry q,
              trace = trace s @ [Execute q args, LogWrite (log_entry q)]\<rparr>"
  from Cons.IH[of s] Cons.IH[of ?s1] show ?case
    by (cases "q \<in> set already"; cases "execute_ok cur (submitted s) q args") auto
qed

lemma run_queries_logwrites:
  "LogWrite w \<in> set (trace (fst (run_queries cur args already qs s))) \<Longrightarrow>
     LogWrite w \<in> set (trace s) \<or> (\<exists>q \<in> set qs - set already. w = log_entry q)"
proof (induction qs arbitrary: s)
  case Nil
  then show ?case by simp
next
  case (Cons q qs)
  let ?s1 = "\<lparr>submitted = submitted s @ [q], appended = appended s @ log_entry q,
              trace = trace s @ [Execute q args, LogWrite (log_entry q)]\<rparr>"
  from Cons.prems Cons.IH[of s] Cons.IH[of ?s1] show ?case
    by (cases "q \<in> set already"; cases "execute_ok cur (submitted s) q args") auto
qed

lemma log_entry_inj: "log_entry a = log_entry b \<longleftrightarrow> a = b"
  by (simp add: log_entry_def)

lemma impala_prepare_trace:
  "LogWrite w \<notin> set (fst (impala_prepare env p))"
  by (auto simp: impala_prepare_def Let_def split: option.splits sum.splits)

lemma impala_main_unfold:
  "snd (impala_prepare env p) = Inr (queries, content) \<Longrightarrow>
     impala_main env p =
       (case run_queries (cursor env) (prepare_args p) (already_ran_queries content) queries
                  \<lparr>submitted = [], appended = [], trace = fst (impala_prepare env p)\<rparr> of
             (s, Some e) \<Rightarrow> (s, Inl e)
           | (s, None) \<Rightarrow> impala_report env p s)"
  by (cases "impala_prepare env p") (simp add: impala_main_def)

lemma impala_report_session:
  "submitted (fst (impala_report env p s)) = submitted s"
  "appended (fst (impala_report env p s)) = appended s"
  "LogWrite w \<in> set (trace (fst (impala_report env p s))) \<longleftrightarrow> LogWrite w \<in> set (trace s)"
  by (auto simp: impala_report_def split: sum.splits prod.splits)

lemma run_queries_error:
  "snd (run_queries cur args already qs s) = Some e \<Longrightarrow>
     \<exists>q. e = StatementExecutionFailed q args"
  by (induction qs arbitrary: s) (auto split: if_splits)

lemma impala_main_session:
  assumes "snd (impala_prepare env p) = Inr (queries, content)"
  defines "r \<equiv> run_queries (cursor env) (prepare_args p) (already_ran_queries content) queries
                  \<lparr>submitted = [], appended = [], trace = fst (impala_prepare env p)\<rparr>"
  shows "submitted (fst (impala_main env p)) = submitted (fst r)"
    and "appended (fst (impala_main env p)) = appended (fst r)"
    and "LogWrite w \<in> set (trace (fst (impala_main env p))) \<longleftrightarrow> LogWrite w \<in> set (trace (fst r))"
    and "snd r = Some e \<Longrightarrow> snd (impala_main env p) = Inl e"
    and "snd r = None \<Longrightarrow> impala_main env p = impala_report env p (fst r)"
  using impala_main_unfold[OF assms(1)] unfolding r_def
  by (auto simp: impala_report_session split: prod.splits option.splits)

text \<open>
  Claim C1, as amended. In an Impala run that reaches the loop, no statement found among
  the entries of the replay log (its content without any leading or trailing line break,
  split at semicolon and line break, empty entries dropped) is submitted, and no log entry
  is written for it; only statements of the batch are submitted; and unless a statement
  fails in the executor, which ends the run and leaves the later statements unsubmitted,
  the submitted statements are exactly the statements of the batch that are not among
  those entries.
\<close>

theorem replay_filter:
  assumes "snd (impala_prepare env p) = Inr (queries, content)"
  shows "(\<forall>q. q \<in> set (already_ran_queries content) \<longrightarrow>
             q \<notin> set (submitted (fst (impala_main env p))) \<and>
             LogWrite (log_entry q) \<notin> set (trace (fst (impala_main env p)))) \<and>
         set (submitted (fst (impala_main env p))) \<subseteq> set queries \<and>
         ((\<forall>q a. snd (impala_main env p) \<noteq> Inl (StatementExecutionFailed q a)) \<longrightarrow>
            submitted (fst (impala_main env p)) =
              filter (\<lambda>q. q \<notin> set (already_ran_queries content)) queries \<and>
            (\<forall>q \<in> set queries. q \<in> set (submitted (fst (impala_main env p)))
                 \<longleftrightarrow> q \<notin> set (already_ran_queries content)))"
proof -
  let ?already = "already_ran_queries content"
  let ?s0 = "\<lparr>submitted = [], appended = [], trace = fst (impala_prepare env p)\<rparr>"
  let ?r = "run_queries (cursor env) (prepare_args p) ?already queries ?s0"
  note ses = impala_main_session[OF assms]
  have sub: "set (submitted (fst ?r)) \<subseteq> set queries - set ?already"
    using run_queries_submitted_sub[of "cursor env" "prepare_args p" ?already queries ?s0]
    by simp
  have nolog: "LogWrite (log_entry q) \<notin> set (trace (fst ?r))" if "q \<in> set ?already" for q
  proof
    assume "LogWrite (log_entry q) \<in> set (trace (fst ?r))"
    from run_queries_logwrites[OF this]
    show False using that by (auto simp: impala_prepare_trace log_entry_inj)
  qed
  have fin: "submitted (fst ?r) = filter (\<lambda>q. q \<notin> set ?already) queries"
    if "\<forall>q a. snd (impala_main env p) \<noteq> Inl (StatementExecutionFailed q a)"
  proof (cases "snd ?r")
    case None
    from run_queries_done[OF this] show ?thesis
      by simp
  next
    case (Some e)
    from run_queries_error[OF this] ses(4)[OF Some] that
    show ?thesis by auto
  qed
  show ?thesis
    unfolding ses(1) ses(3)
    using sub nolog fin by auto
qed

theorem replay_filter_witness:
  "snd (impala_prepare replay_env replay_params) =
     Inr ([''DROP TABLE a'', ''DROP TABLE b'', ''DROP TABLE c;''],
          ''DROP TABLE a;\<newline>DROP TABLE b;\<newline>'') \<and>
   already_ran_queries ''DROP TABLE a;\<newline>DROP TABLE b;\<newline>'' = [''DROP TABLE a'', ''DROP TABLE b;''] \<and>
   (\<forall>q a. snd (impala_main replay_env replay_params) \<noteq> Inl (StatementExecutionFailed q a)) \<and>
   submitted (fst (impala_main replay_env replay_params)) = [''DROP TABLE b'', ''DROP TABLE c;'']"
proof -
  have h: "snd (impala_prepare replay_env replay_params) =
     Inr ([''DROP TABLE a'', ''DROP TABLE b'', ''DROP TABLE c;''],
          ''DROP TABLE a;\<newline>DROP TABLE b;\<newline>'')"
    by code_simp
  have a: "already_ran_queries ''DROP TABLE a;\<newline>DROP TABLE b;\<newline>'' = [''DROP TABLE a'', ''DROP TABLE b;'']"
    by code_simp
  have c: "snd (impala_main replay_env replay_params) =
     Inr \<lparr>changed = True, stout_lines = ''OK'', query_results = [],
         ansible_facts = [], rowcount = 0\<rparr>"
    by code_simp
  from replay_filter[OF h] c show ?thesis
    unfolding a using h by simp
qed

text \<open>
  The claim as stated fails in two ways. With a blank line at the end of the log, a
  statement that is an entry in the claim's sense (one trailing line break stripped) is
  not an entry for the code, and is submitted. And when the executor refuses the first
  statement, the run ends, and the second statement, which is no entry of the log, is not
  submitted.
\<close>

theorem replay_filter_counterexample:
  "snd (impala_prepare (sample_env two_drops ''DROP TABLE a;\<newline>\<newline>'' False no_rows)
          (file_params ''batch.sql'' None)) =
     Inr ([''DROP TABLE a'', ''DROP TABLE b;''], ''DROP TABLE a;\<newline>\<newline>'') \<and>
   ''DROP TABLE a'' \<in> set (claimed_log_entries ''DROP TABLE a;\<newline>\<newline>'') \<and>
   ''DROP TABLE a'' \<in> set (submitted (fst (impala_main
        (sample_env two_drops ''DROP TABLE a;\<newline>\<newline>'' False no_rows)
        (file_params ''batch.sql'' None)))) \<and>
   snd (impala_prepare (sample_env two_inserts '''' False refusing_cursor)
          (file_params ''batch.sql'' None)) =
     Inr ([''INSERT INTO t VALUES (1)'', ''INSERT INTO t VALUES (2);''], '''') \<and>
   ''INSERT INTO t VALUES (2);'' \<notin> set (claimed_log_entries '''') \<and>
   ''INSERT INTO t VALUES (2);'' \<notin> set (submitted (fst (impala_main
        (sample_env two_inserts '''' False refusing_cursor) (file_params ''batch.sql'' None))))"
proof -
  have a: "snd (impala_prepare (sample_env two_drops ''DROP TABLE a;\<newline>\<newline>'' False no_rows)
          (file_params ''batch.sql'' None)) =
     Inr ([''DROP TABLE a'', ''DROP TABLE b;''], ''DROP TABLE a;\<newline>\<newline>'')"
    by code_simp
  have b: "''DROP TABLE a'' \<in> set (claimed_log_entries ''DROP TABLE a;\<newline>\<newline>'')"
    by code_simp
  have c: "''DROP TABLE a'' \<in> set (submitted (fst (impala_main
        (sample_env two_drops ''DROP TABLE a;\<newline>\<newline>'' False no_rows)
        (file_params ''batch.sql'' None))))"
    by code_simp
  have d: "snd (impala_prepare (sample_env two_inserts '''' False refusing_cursor)
          (file_params ''batch.sql'' None)) =
     Inr ([''INSERT INTO t VALUES (1)'', ''INSERT INTO t VALUES (2);''], '''')"
    by code_simp
  have e: "''INSERT INTO t VALUES (2);'' \<notin> set (claimed_log_entries '''')"
    by code_simp
  have f: "''INSERT INTO t VALUES (2);'' \<notin> set (submitted (fst (impala_main
        (sample_env two_inserts '''' False refusing_cursor) (file_params ''batch.sql'' None))))"
    by code_simp
  from a b c d e f show ?thesis by blast
qed

section \<open>The log entries\<close>

text \<open>
  Claim C2. The claim asks for the statement text followed by a semicolon and a line break.
  Line 252 writes the text followed by a line break only, although line 239 reads the log
  back by splitting at semicolon and line break. For a file of two statements and an empty
  log, the text appended is the two statements separated by a bare line break; read back,
  it is one entry that equals neither statement, and a second run with that log submits
  both statements again. (The order the claim describes does hold: see
  \<open>run_queries_done\<close> for the write after each successful statement.)
\<close>

theorem log_entry_without_semicolon:
  "appended (fst (impala_main (sample_env two_inserts '''' False no_rows)
                              (file_params ''batch.sql'' None))) =
     ''INSERT INTO t VALUES (1)\<newline>INSERT INTO t VALUES (2);\<newline>'' \<and>
   submitted (fst (impala_main (sample_env two_inserts '''' False no_rows)
                              (file_params ''batch.sql'' None))) =
     [''INSERT INTO t VALUES (1)'', ''INSERT INTO t VALUES (2);''] \<and>
   already_ran_queries ''INSERT INTO t VALUES (1)\<newline>INSERT INTO t VALUES (2);\<newline>'' =
     [''INSERT INTO t VALUES (1)\<newline>INSERT INTO t VALUES (2);''] \<and>
   submitted (fst (impala_main
        (sample_env two_inserts ''INSERT INTO t VALUES (1)\<newline>INSERT INTO t VALUES (2);\<newline>''
           False no_rows)
        (file_params ''batch.sql'' None))) =
     [''INSERT INTO t VALUES (1)'', ''INSERT INTO t VALUES (2);'']"
proof -
  have a: "appended (fst (impala_main (sample_env two_inserts '''' False no_rows)
                              (file_params ''batch.sql'' None))) =
     ''INSERT INTO t VALUES (1)\<newline>INSERT INTO t VALUES (2);\<newline>''"
    by code_simp
  have b: "submitted (fst (impala_main (sample_env two_inserts '''' False no_rows)
                              (file_params ''batch.sql'' None))) =
     [''INSERT INTO t VALUES (1)'', ''INSERT INTO t VALUES (2);'']"
    by code_simp
  have c: "already_ran_queries ''INSERT INTO t VALUES (1)\<newline>INSERT INTO t VALUES (2);\<newline>'' =
     [''INSERT INTO t VALUES (1)\<newline>INSERT INTO t VALUES (2);'']"
    by code_simp
  have d: "submitted (fst (impala_main
        (sample_env two_inserts ''INSERT INTO t VALUES (1)\<newline>INSERT INTO t VALUES (2);\<newline>''
           False no_rows)
        (file_params ''batch.sql'' None))) =
     [''INSERT INTO t VALUES (1)'', ''INSERT INTO t VALUES (2);'']"
    by code_simp
  from a b c d show ?thesis by blast
qed

section \<open>Completed runs\<close>


lemma impala_fetch_length:
  "impala_fetch cur fct h = Inr (results, facts, n) \<Longrightarrow> n = int (length results)"
  by (auto simp: impala_fetch_def split: if_splits fetched.splits option.splits)

lemma impala_report_completed:
  assumes "snd (impala_report env p s) = Inr out"
  shows "changed out"
    and "stout_lines out = statusmessage (cursor env) (submitted s)"
    and "rowcount out = int (length (query_results out))"
    and "trace (fst (impala_report env p s)) = trace s @ [CloseLog, Commit, CloseConn]"
proof -
  obtain results facts n where
    f: "impala_fetch (cursor env) (fact p) (submitted s) = Inr (results, facts, n)"
    using assms by (cases "impala_fetch (cursor env) (fact p) (submitted s)")
                   (auto simp: impala_report_def)
  have out: "out = \<lparr>changed = True, stout_lines = statusmessage (cursor env) (submitted s),
                     query_results = results, ansible_facts = facts, rowcount = n\<rparr>"
    using assms f by (simp add: impala_report_def)
  show "changed out" and "stout_lines out = statusmessage (cursor env) (submitted s)"
    by (simp_all add: out)
  show "rowcount out = int (length (query_results out))"
    using impala_fetch_length[OF f] by (simp add: out)
  show "trace (fst (impala_report env p s)) = trace s @ [CloseLog, Commit, CloseConn]"
    using f by (simp add: impala_report_def)
qed

lemma impala_main_completed:
  assumes "snd (impala_main env p) = Inr out"
  shows "\<exists>queries content.
           snd (impala_prepare env p) = Inr (queries, content) \<and>
           snd (run_queries (cursor env) (prepare_args p) (already_ran_queries content) queries
                  \<lparr>submitted = [], appended = [], trace = fst (impala_prepare env p)\<rparr>) = None"
proof (cases "impala_prepare env p")
  case (Pair tr r)
  show ?thesis
  proof (cases r)
    case (Inl e)
    with Pair assms show ?thesis by (simp add: impala_main_def)
  next
    case (Inr qc)
    obtain queries content where qc: "qc = (queries, content)" by (cases qc)
    let ?r = "run_queries (cursor env) (prepare_args p) (already_ran_queries content) queries
                  \<lparr>submitted = [], appended = [], trace = tr\<rparr>"
    have "snd ?r = None"
    proof (cases "snd ?r")
      case None
      then show ?thesis .
    next
      case (Some e)
      then have "snd (impala_main env p) = Inl e"
        using Pair Inr qc by (cases ?r) (simp add: impala_main_def)
      with assms show ?thesis by simp
    qed
    with Pair Inr qc show ?thesis by simp
  qed
qed

lemma impala_main_success_trace:
  assumes prep: "snd (impala_prepare env p) = Inr (queries, content)"
    and ok: "snd (impala_main env p) = Inr out"
  shows "trace (fst (impala_main env p)) =
           fst (impala_prepare env p)
           @ concat (map (\<lambda>q. [Execute q (prepare_args p), LogWrite (log_entry q)])
                     (filter (\<lambda>q. q \<notin> set (already_ran_queries content)) queries))
           @ [CloseLog, Commit, CloseConn]"
    and "submitted (fst (impala_main env p)) =
           filter (\<lambda>q. q \<notin> set (already_ran_queries content)) queries"
    and "appended (fst (impala_main env p)) =
           concat (map log_entry (filter (\<lambda>q. q \<notin> set (already_ran_queries content)) queries))"
    and "changed out"
    and "rowcount out = int (length (query_results out))"
proof -
  let ?r = "run_queries (cursor env) (prepare_args p) (already_ran_queries content) queries
                  \<lparr>submitted = [], appended = [], trace = fst (impala_prepare env p)\<rparr>"
  from impala_main_completed[OF ok] prep have none: "snd ?r = None" by auto
  note ses = impala_main_session[OF prep]
  note d = run_queries_done[OF none]
  have m: "impala_main env p = impala_report env p (fst ?r)" by (rule ses(5)[OF none])
  from ok m have rep: "snd (impala_report env p (fst ?r)) = Inr out" by simp
  note c = impala_report_completed[OF rep]
  show "trace (fst (impala_main env p)) =
           fst (impala_prepare env p)
           @ concat (map (\<lambda>q. [Execute q (prepare_args p), LogWrite (log_entry q)])
                     (filter (\<lambda>q. q \<notin> set (already_ran_queries content)) queries))
           @ [CloseLog, Commit, CloseConn]"
    unfolding m c(4) by (simp add: d)
  show "submitted (fst (impala_main env p)) =
           filter (\<lambda>q. q \<notin> set (already_ran_queries content)) queries"
    unfolding ses(1) by (simp add: d)
  show "appended (fst (impala_main env p)) =
           concat (map log_entry (filter (\<lambda>q. q \<notin> set (already_ran_queries content)) queries))"
    unfolding ses(2) by (simp add: d)
  show "changed out" by (rule c(1))
  show "rowcount out = int (length (query_results out))" by (rule c(3))
qed

lemma pg_fetch_length:
  "pg_fetch cur fct h = Inr (results, facts, n) \<Longrightarrow> n = int (length results)"
  by (auto simp: pg_fetch_def split: if_splits fetched.splits)

lemma pg_report_completed:
  assumes "snd (pg_report env p h tr) = Inr out"
  shows "changed out = (\<not> str_contains ''SELECT'' (statusmessage (cursor env) h))"
    and "stout_lines out = statusmessage (cursor env) h"
    and "rowcount out = int (length (query_results out))"
    and "fst (pg_report env p h tr) =
           tr @ (if changed out then [if check_mode env then Rollback else Commit] else [])
              @ [CloseConn]"
proof -
  obtain results facts n where f: "pg_fetch (cursor env) (fact p) h = Inr (results, facts, n)"
    using assms by (cases "pg_fetch (cursor env) (fact p) h") (auto simp: pg_report_def)
  obtain fs where fs: "facts = Some fs"
    using assms f by (cases facts) (auto simp: pg_report_def Let_def)
  have out: "out = \<lparr>changed = (\<not> str_contains ''SELECT'' (statusmessage (cursor env) h)),
                     stout_lines = statusmessage (cursor env) h, query_results = results,
                     ansible_facts = fs, rowcount = n\<rparr>"
    using assms f fs by (simp add: pg_report_def Let_def)
  show "changed out = (\<not> str_contains ''SELECT'' (statusmessage (cursor env) h))"
    and "stout_lines out = statusmessage (cursor env) h"
    by (simp_all add: out)
  show "rowcount out = int (length (query_results out))"
    using pg_fetch_length[OF f] by (simp add: out)
  show "fst (pg_report env p h tr) =
           tr @ (if changed out then [if check_mode env then Rollback else Commit] else [])
              @ [CloseConn]"
    using f fs by (simp add: pg_report_def Let_def out)
qed

lemma pg_main_completed:
  assumes "snd (pg_main env p) = Inr out"
  shows "\<exists>q tr. pg_main env p = pg_report env p [q] (tr @ [Execute q (prepare_args p)]) \<and>
                 Commit \<notin> set tr \<and> Rollback \<notin> set tr"
proof -
  have c1: "\<not> args_conflict p"
  proof
    assume "args_conflict p"
    then have "pg_main env p = ([], Inl ConfigurationConflict)" by (simp add: pg_main_def)
    with assms show False by simp
  qed
  have c2: "has_driver env"
  proof (rule ccontr)
    assume "\<not> has_driver env"
    with c1 have "pg_main env p = ([], Inl MissingDriver)" by (simp add: pg_main_def)
    with assms show False by simp
  qed
  have c3: "connect_ok env"
  proof (rule ccontr)
    assume "\<not> connect_ok env"
    with c1 c2 have "pg_main env p = ([Connect], Inl ConnectionFailed)" by (simp add: pg_main_def)
    with assms show False by simp
  qed
  obtain path where path: "query p = Some path"
  proof (cases "query p")
    case None
    with c1 c2 c3 have "pg_main env p = ([Connect], Inl AttributeError)" by (simp add: pg_main_def)
    with assms show ?thesis by simp
  next
    case (Some a)
    then show ?thesis using that by simp
  qed
  have c4: "\<not> (endswith path ''.sql'' \<and> read_file env path = None)"
  proof
    assume "endswith path ''.sql'' \<and> read_file env path = None"
    with c1 c2 c3 path
    have "pg_main env p = ([Connect, ReadFile path], Inl (SourceUnavailable path))"
      by (simp add: pg_main_def)
    with assms show False by simp
  qed
  let ?q = "if endswith path ''.sql'' then strip_nl (the (read_file env path)) else path"
  let ?tr = "Connect # (if endswith path ''.sql'' then [ReadFile path] else [])"
  have c5: "execute_ok (cursor env) [] ?q (prepare_args p)"
  proof (rule ccontr)
    assume "\<not> execute_ok (cursor env) [] ?q (prepare_args p)"
    with c1 c2 c3 c4 path
    have "snd (pg_main env p) = Inl (StatementExecutionFailed ?q (prepare_args p))"
      unfolding pg_main_def Let_def by (simp only: if_False if_True option.case snd_conv simp_thms)
    with assms show False by simp
  qed
  have "pg_main env p = pg_report env p [?q] (?tr @ [Execute ?q (prepare_args p)])"
    using c1 c2 c3 c4 c5 path
    unfolding pg_main_def Let_def by (simp only: if_False if_True option.case simp_thms append_Cons)
  moreover have "Commit \<notin> set ?tr \<and> Rollback \<notin> set ?tr" by simp
  ultimately show ?thesis by blast
qed

lemma count_list_filter_eq:
  "count_list (filter P xs) x = (if P x then count_list xs x else 0)"
  by (induction xs) auto

lemma count_log_writes:
  "count_list (concat (map (\<lambda>q. [Execute q a, LogWrite (log_entry q)]) xs)) (LogWrite (log_entry S))
     = count_list xs S"
  by (induction xs) (auto simp: log_entry_inj)

lemma count_list_absent: "x \<notin> set xs \<Longrightarrow> count_list xs x = 0"
  by (simp add: count_list_0_iff)

text \<open>
  Claim C3, as amended. In an Impala run that completes, a statement of the batch that is
  not among the entries read from the replay log is submitted, and a log entry is written
  for it, once for each of its occurrences in the batch (so exactly once when it occurs
  once); for a statement among those entries nothing is submitted and nothing is written.
\<close>

theorem replay_log_once_per_occurrence:
  assumes "snd (impala_prepare env p) = Inr (queries, content)"
    and "snd (impala_main env p) = Inr out"
  shows "count_list (submitted (fst (impala_main env p))) S =
           (if S \<in> set (already_ran_queries content) then 0 else count_list queries S) \<and>
         count_list (trace (fst (impala_main env p))) (LogWrite (log_entry S)) =
           (if S \<in> set (already_ran_queries content) then 0 else count_list queries S)"
proof -
  note t = impala_main_success_trace[OF assms]
  have z: "count_list (fst (impala_prepare env p)) (LogWrite (log_entry S)) = 0"
    by (rule count_list_absent) (rule impala_prepare_trace)
  show ?thesis
    unfolding t(1) t(2) by (simp add: z count_log_writes count_list_filter_eq)
qed

theorem replay_log_once_per_occurrence_witness:
  "snd (impala_prepare (sample_env repeated_insert '''' False no_rows) (file_params ''batch.sql'' None)) =
     Inr ([''INSERT INTO t VALUES (1)'', ''INSERT INTO t VALUES (1)'', ''INSERT INTO t VALUES (2);''],
          '''') \<and>
   snd (impala_main (sample_env repeated_insert '''' False no_rows) (file_params ''batch.sql'' None)) =
     Inr \<lparr>changed = True, stout_lines = ''OK'', query_results = [], ansible_facts = [],
          rowcount = 0\<rparr> \<and>
   count_list (submitted (fst (impala_main (sample_env repeated_insert '''' False no_rows)
                                 (file_params ''batch.sql'' None))))
      ''INSERT INTO t VALUES (1)'' = 2 \<and>
   count_list (trace (fst (impala_main (sample_env repeated_insert '''' False no_rows)
                                 (file_params ''batch.sql'' None))))
      (LogWrite (log_entry ''INSERT INTO t VALUES (1)'')) = 2"
proof -
  have h: "snd (impala_prepare (sample_env repeated_insert '''' False no_rows)
                  (file_params ''batch.sql'' None)) =
     Inr ([''INSERT INTO t VALUES (1)'', ''INSERT INTO t VALUES (1)'', ''INSERT INTO t VALUES (2);''],
          '''')"
    by code_simp
  have c: "snd (impala_main (sample_env repeated_insert '''' False no_rows)
                  (file_params ''batch.sql'' None)) =
     Inr \<lparr>changed = True, stout_lines = ''OK'', query_results = [], ansible_facts = [],
          rowcount = 0\<rparr>"
    by code_simp
  have a: "already_ran_queries '''' = []" by code_simp
  from replay_log_once_per_occurrence[OF h c, of "''INSERT INTO t VALUES (1)''"] h c
  show ?thesis by (simp add: a)
qed

text \<open>
  The claim as stated fails for a statement that occurs twice in the batch: the entries of
  the log are read once, before the loop, so both occurrences are submitted and two log
  entries are written; the log read back afterwards does not hold the statement exactly
  once.
\<close>

theorem replay_log_exactly_once_counterexample:
  "snd (impala_prepare (sample_env repeated_insert '''' False no_rows) (file_params ''batch.sql'' None)) =
     Inr ([''INSERT INTO t VALUES (1)'', ''INSERT INTO t VALUES (1)'', ''INSERT INTO t VALUES (2);''],
          '''') \<and>
   ''INSERT INTO t VALUES (1)'' \<notin> set (already_ran_queries '''') \<and>
   snd (impala_main (sample_env repeated_insert '''' False no_rows) (file_params ''batch.sql'' None)) =
     Inr \<lparr>changed = True, stout_lines = ''OK'', query_results = [], ansible_facts = [],
          rowcount = 0\<rparr> \<and>
   trace (fst (impala_main (sample_env repeated_insert '''' False no_rows)
                 (file_params ''batch.sql'' None))) =
     [Connect, ReadFile ''batch.sql'', OpenLog ''ran.log'',
      Execute ''INSERT INTO t VALUES (1)'' None, LogWrite ''INSERT INTO t VALUES (1)\<newline>'',
      Execute ''INSERT INTO t VALUES (1)'' None, LogWrite ''INSERT INTO t VALUES (1)\<newline>'',
      Execute ''INSERT INTO t VALUES (2);'' None, LogWrite ''INSERT INTO t VALUES (2);\<newline>'',
      CloseLog, Commit, CloseConn] \<and>
   count_list
     (already_ran_queries
        ('''' @ appended (fst (impala_main (sample_env repeated_insert '''' False no_rows)
                                 (file_params ''batch.sql'' None)))))
     ''INSERT INTO t VALUES (1)'' \<noteq> 1"
proof -
  have h: "snd (impala_prepare (sample_env repeated_insert '''' False no_rows)
                  (file_params ''batch.sql'' None)) =
     Inr ([''INSERT INTO t VALUES (1)'', ''INSERT INTO t VALUES (1)'', ''INSERT INTO t VALUES (2);''],
          '''')"
    by code_simp
  have a: "''INSERT INTO t VALUES (1)'' \<notin> set (already_ran_queries '''')" by code_simp
  have c: "snd (impala_main (sample_env repeated_insert '''' False no_rows)
                  (file_params ''batch.sql'' None)) =
     Inr \<lparr>changed = True, stout_lines = ''OK'', query_results = [], ansible_facts = [],
          rowcount = 0\<rparr>"
    by code_simp
  have t: "trace (fst (impala_main (sample_env repeated_insert '''' False no_rows)
                 (file_params ''batch.sql'' None))) =
     [Connect, ReadFile ''batch.sql'', OpenLog ''ran.log'',
      Execute ''INSERT INTO t VALUES (1)'' None, LogWrite ''INSERT INTO t VALUES (1)\<newline>'',
      Execute ''INSERT INTO t VALUES (1)'' None, LogWrite ''INSERT INTO t VALUES (1)\<newline>'',
      Execute ''INSERT INTO t VALUES (2);'' None, LogWrite ''INSERT INTO t VALUES (2);\<newline>'',
      CloseLog, Commit, CloseConn]"
    by code_simp
  have n: "count_list
     (already_ran_queries
        ('''' @ appended (fst (impala_main (sample_env repeated_insert '''' False no_rows)
                                 (file_params ''batch.sql'' None)))))
     ''INSERT INTO t VALUES (1)'' \<noteq> 1"
    by code_simp
  from h a c t n show ?thesis by blast
qed

section \<open>The query source\<close>

text \<open>
  Claim C4. For a query parameter that does not end in \<^verbatim>\<open>.sql\<close> the Impala module
  never assigns \<^verbatim>\<open>sql_file\<close>, and line 236 reads it: the run ends with
  \<^verbatim>\<open>UnboundLocalError\<close> after connecting and opening the log, and nothing is
  submitted. The PostgreSQL module submits the parameter as its one statement.
\<close>

theorem literal_query_unbound_sql_file:
  "impala_main (sample_env two_inserts '''' False no_rows) (file_params ''SELECT 1'' None) =
     (\<lparr>submitted = [], appended = [], trace = [Connect, OpenLog ''ran.log'']\<rparr>,
      Inl (UnboundLocalError ''sql_file'')) \<and>
   fst (pg_main (sample_env two_inserts '''' False pg_two_rows) (pg_params ''SELECT 1'' None)) =
     [Connect, Execute ''SELECT 1'' None, CloseConn]"
proof -
  have a: "impala_main (sample_env two_inserts '''' False no_rows) (file_params ''SELECT 1'' None) =
     (\<lparr>submitted = [], appended = [], trace = [Connect, OpenLog ''ran.log'']\<rparr>,
      Inl (UnboundLocalError ''sql_file''))"
    by code_simp
  have b: "fst (pg_main (sample_env two_inserts '''' False pg_two_rows) (pg_params ''SELECT 1'' None)) =
     [Connect, Execute ''SELECT 1'' None, CloseConn]"
    by code_simp
  from a b show ?thesis by blast
qed

lemma split_from_nonempty: "split_from cur s \<noteq> []"
  by (induction cur s rule: split_from.induct) auto

lemma join_semi_nl_Cons:
  "ys \<noteq> [] \<Longrightarrow> join_semi_nl (x # ys) = x @ '';\<newline>'' @ join_semi_nl ys"
  by (cases ys) auto

lemma join_split_from: "join_semi_nl (split_from cur s) = cur @ s"
  by (induction cur s rule: split_from.induct)
     (auto simp: join_semi_nl_Cons split_from_nonempty)

lemma join_split_semi_nl: "join_semi_nl (split_semi_nl s) = s"
  by (simp add: split_semi_nl_def join_split_from)

text \<open>
  What the rewriting of line 236 does to a content: the result has exactly one line break
  after every semicolon that is followed by whitespace, it differs from the content in
  whitespace only, and a content that already has that form is left as it is.
\<close>

lemma is_space_newline: "is_space CHR ''\<newline>''"
  by (simp add: is_space_def)

lemma not_is_space_semicolon: "\<not> is_space CHR '';''"
  by (simp add: is_space_def)

lemma regex_sub_Nil_iff: "regex_sub s = [] \<longleftrightarrow> s = []"
  by (cases s) auto

lemma hd_regex_sub: "s \<noteq> [] \<Longrightarrow> hd (regex_sub s) = hd s"
  by (cases s) auto

lemma regex_sub_single_break: "single_break_delimiters (regex_sub s)"
proof (induction s rule: regex_sub.induct)
  case 1
  show ?case by simp
next
  case (2 c cs)
  show ?case
  proof (cases "c = CHR '';'' \<and> cs \<noteq> [] \<and> is_space (hd cs)")
    case True
    let ?r = "dropWhile is_space cs"
    from True 2 have ih: "single_break_delimiters (regex_sub ?r)" by simp
    have h: "regex_sub ?r = [] \<or> \<not> is_space (hd (regex_sub ?r))"
    proof (cases "?r = []")
      case True
      then have "regex_sub ?r = []" by (simp only: regex_sub.simps)
      then show ?thesis ..
    next
      case False
      from hd_dropWhile[OF False] have "\<not> is_space (hd ?r)" .
      with hd_regex_sub[OF False] show ?thesis by simp
    qed
    from True have "regex_sub (c # cs) = CHR '';'' # CHR ''\<newline>'' # regex_sub ?r" by simp
    with ih h show ?thesis by (auto simp: not_is_space_semicolon)
  next
    case False
    with 2 have ih: "single_break_delimiters (regex_sub cs)" by simp
    from False have e: "regex_sub (c # cs) = c # regex_sub cs" by auto
    from False have "\<not> (c = CHR '';'' \<and> regex_sub cs \<noteq> [] \<and> is_space (hd (regex_sub cs)))"
      by (cases "cs = []") (auto simp: hd_regex_sub regex_sub_Nil_iff)
    with ih e show ?thesis by auto
  qed
qed

lemma filter_dropWhile_space:
  "filter (\<lambda>c. \<not> is_space c) (dropWhile is_space cs) = filter (\<lambda>c. \<not> is_space c) cs"
  by (induction cs) auto

lemma regex_sub_keeps_text:
  "filter (\<lambda>c. \<not> is_space c) (regex_sub s) = filter (\<lambda>c. \<not> is_space c) s"
proof (induction s rule: regex_sub.induct)
  case 1
  show ?case by simp
next
  case (2 c cs)
  show ?case
  proof (cases "c = CHR '';'' \<and> cs \<noteq> [] \<and> is_space (hd cs)")
    case True
    with 2 have "filter (\<lambda>c. \<not> is_space c) (regex_sub (dropWhile is_space cs))
                 = filter (\<lambda>c. \<not> is_space c) (dropWhile is_space cs)" by simp
    with True show ?thesis
      by (simp add: filter_dropWhile_space is_space_newline not_is_space_semicolon)
  next
    case False
    with 2 have "filter (\<lambda>c. \<not> is_space c) (regex_sub cs) = filter (\<lambda>c. \<not> is_space c) cs"
      by simp
    with False show ?thesis by auto
  qed
qed

lemma regex_sub_fixed: "single_break_delimiters s \<Longrightarrow> regex_sub s = s"
proof (induction s rule: regex_sub.induct)
  case 1
  show ?case by simp
next
  case (2 c cs)
  show ?case
  proof (cases "c = CHR '';'' \<and> cs \<noteq> [] \<and> is_space (hd cs)")
    case True
    with "2.prems" obtain rest where cs: "cs = CHR ''\<newline>'' # rest"
      and rest: "rest = [] \<or> \<not> is_space (hd rest)" and sb: "single_break_delimiters cs"
      by (cases cs) auto
    from rest have d: "dropWhile is_space cs = rest"
      by (cases rest) (auto simp: cs is_space_newline)
    from sb cs have "single_break_delimiters rest" by simp
    with "2.IH"(1)[OF True] d have "regex_sub rest = rest" by simp
    with True d cs show ?thesis by simp
  next
    case False
    from "2.prems" have "single_break_delimiters cs" by simp
    with "2.IH"(2)[OF False] have "regex_sub cs = cs" by simp
    with False show ?thesis by auto
  qed
qed

text \<open>
  Claim C5, as amended. For a source content whose delimiters end lines and which yields
  no empty fragment, joining the statements with semicolon and line break gives the
  content with every run of whitespace after such a semicolon collapsed to one line break:
  the same characters apart from whitespace, in the same order, and exactly one line break
  after each of those semicolons. It gives the content itself when each run already is a
  single line break. (What line 236 does to a semicolon followed by blanks inside a line
  is left out of this statement.)
\<close>

theorem split_join_roundtrip:
  assumes "delimiters_end_lines t" and "[] \<notin> set (split_semi_nl (regex_sub t))"
  shows "join_semi_nl (split_statements t) = regex_sub t \<and>
         single_break_delimiters (regex_sub t) \<and>
         filter (\<lambda>c. \<not> is_space c) (regex_sub t) = filter (\<lambda>c. \<not> is_space c) t \<and>
         (single_break_delimiters t \<longrightarrow> join_semi_nl (split_statements t) = t)"
proof -
  from assms(2)
  have "filter (\<lambda>line. line \<noteq> []) (split_semi_nl (regex_sub t)) = split_semi_nl (regex_sub t)"
    by (auto simp: filter_id_conv)
  then have j: "join_semi_nl (split_statements t) = regex_sub t"
    by (simp add: split_statements_def join_split_semi_nl)
  have k: "single_break_delimiters t \<longrightarrow> join_semi_nl (split_statements t) = t"
    using j regex_sub_fixed[of t] by presburger
  from j k regex_sub_single_break[of t] regex_sub_keeps_text[of t] show ?thesis by blast
qed

theorem split_join_roundtrip_witness:
  "delimiters_end_lines ''SELECT 1;  \<newline>\<newline>SELECT 2;\<newline>SELECT 3'' \<and>
   [] \<notin> set (split_semi_nl (regex_sub ''SELECT 1;  \<newline>\<newline>SELECT 2;\<newline>SELECT 3'')) \<and>
   regex_sub ''SELECT 1;  \<newline>\<newline>SELECT 2;\<newline>SELECT 3'' = ''SELECT 1;\<newline>SELECT 2;\<newline>SELECT 3'' \<and>
   join_semi_nl (split_statements ''SELECT 1;  \<newline>\<newline>SELECT 2;\<newline>SELECT 3'') =
     ''SELECT 1;\<newline>SELECT 2;\<newline>SELECT 3'' \<and>
   delimiters_end_lines ''SELECT 1;\<newline>SELECT 2;'' \<and>
   [] \<notin> set (split_semi_nl (regex_sub ''SELECT 1;\<newline>SELECT 2;'')) \<and>
   single_break_delimiters ''SELECT 1;\<newline>SELECT 2;'' \<and>
   join_semi_nl (split_statements ''SELECT 1;\<newline>SELECT 2;'') = ''SELECT 1;\<newline>SELECT 2;''"
proof -
  have a1: "delimiters_end_lines ''SELECT 1;  \<newline>\<newline>SELECT 2;\<newline>SELECT 3''"
    by code_simp
  have a2: "[] \<notin> set (split_semi_nl (regex_sub ''SELECT 1;  \<newline>\<newline>SELECT 2;\<newline>SELECT 3''))"
    by code_simp
  have a3: "regex_sub ''SELECT 1;  \<newline>\<newline>SELECT 2;\<newline>SELECT 3'' =
              ''SELECT 1;\<newline>SELECT 2;\<newline>SELECT 3''"
    by code_simp
  have b1: "delimiters_end_lines ''SELECT 1;\<newline>SELECT 2;''" by code_simp
  have b2: "[] \<notin> set (split_semi_nl (regex_sub ''SELECT 1;\<newline>SELECT 2;''))" by code_simp
  have b3: "single_break_delimiters ''SELECT 1;\<newline>SELECT 2;''" by code_simp
  from split_join_roundtrip[OF a1 a2]
  have a4: "join_semi_nl (split_statements ''SELECT 1;  \<newline>\<newline>SELECT 2;\<newline>SELECT 3'') =
              regex_sub ''SELECT 1;  \<newline>\<newline>SELECT 2;\<newline>SELECT 3''"
    by blast
  from split_join_roundtrip[OF b1 b2] b3
  have b4: "join_semi_nl (split_statements ''SELECT 1;\<newline>SELECT 2;'') = ''SELECT 1;\<newline>SELECT 2;''"
    by blast
  note a5 = trans[OF a4 a3]
  from a1 a2 a3 a5 b1 b2 b3 b4 show ?thesis by blast
qed

text \<open>
  The claim as stated fails at the ends of lines too: a blank line after a statement is
  collapsed, and an empty fragment between two delimiters is dropped, so the join does not
  give the content back.
\<close>

theorem split_join_roundtrip_counterexample:
  "strip_nl ''SELECT 1;\<newline>\<newline>SELECT 2'' = ''SELECT 1;\<newline>\<newline>SELECT 2'' \<and>
   delimiters_end_lines ''SELECT 1;\<newline>\<newline>SELECT 2'' \<and>
   join_semi_nl (split_statements (strip_nl ''SELECT 1;\<newline>\<newline>SELECT 2''))
     \<noteq> strip_nl ''SELECT 1;\<newline>\<newline>SELECT 2'' \<and>
   strip_nl ''SELECT 1;\<newline>;\<newline>SELECT 2'' = ''SELECT 1;\<newline>;\<newline>SELECT 2'' \<and>
   delimiters_end_lines ''SELECT 1;\<newline>;\<newline>SELECT 2'' \<and>
   join_semi_nl (split_statements (strip_nl ''SELECT 1;\<newline>;\<newline>SELECT 2''))
     \<noteq> strip_nl ''SELECT 1;\<newline>;\<newline>SELECT 2''"
proof -
  have a: "strip_nl ''SELECT 1;\<newline>\<newline>SELECT 2'' = ''SELECT 1;\<newline>\<newline>SELECT 2''" by code_simp
  have b: "delimiters_end_lines ''SELECT 1;\<newline>\<newline>SELECT 2''" by code_simp
  have c: "join_semi_nl (split_statements ''SELECT 1;\<newline>\<newline>SELECT 2'') = ''SELECT 1;\<newline>SELECT 2''"
    by code_simp
  have d: "strip_nl ''SELECT 1;\<newline>;\<newline>SELECT 2'' = ''SELECT 1;\<newline>;\<newline>SELECT 2''" by code_simp
  have e: "delimiters_end_lines ''SELECT 1;\<newline>;\<newline>SELECT 2''" by code_simp
  have f: "join_semi_nl (split_statements ''SELECT 1;\<newline>;\<newline>SELECT 2'') = ''SELECT 1;\<newline>SELECT 2''"
    by code_simp
  show ?thesis unfolding a d c f using b e by simp
qed




section \<open>The reported result\<close>

text \<open>
  Claim C7. For a \<^verbatim>\<open>SELECT\<close> that matches no row the PostgreSQL cursor reports a
  row count of 0, the branch that assigns \<^verbatim>\<open>ansible_facts\<close> is not taken, and the
  call of \<^verbatim>\<open>exit_json\<close> raises \<^verbatim>\<open>UnboundLocalError\<close>: the run does not complete.
\<close>

theorem select_zero_rows_unbound_facts:
  "pg_main (sample_env two_inserts '''' False pg_zero_rows) (pg_params ''SELECT * FROM t'' None) =
     ([Connect, Execute ''SELECT * FROM t'' None, CloseConn],
      Inl (UnboundLocalError ''ansible_facts''))"
  by code_simp

text \<open>
  Claim C8. With two result rows and no fact name, the PostgreSQL module returns the
  mapping with the key \<^verbatim>\<open>None\<close> bound to the rows, not the empty mapping; the Impala
  module, which tests \<^verbatim>\<open>fact is not None\<close>, returns the empty mapping.
\<close>

theorem absent_fact_name_none_key:
  "snd (pg_main (sample_env two_inserts '''' False pg_two_rows) (pg_params ''SELECT * FROM t'' None)) =
     Inr \<lparr>changed = False, stout_lines = ''SELECT 2'', query_results = two_rows,
          ansible_facts = [(None, two_rows)], rowcount = 2\<rparr> \<and>
   snd (impala_main (sample_env two_inserts '''' False impala_two_rows)
          (file_params ''batch.sql'' None)) =
     Inr \<lparr>changed = True, stout_lines = ''OK'', query_results = two_rows,
          ansible_facts = [], rowcount = 2\<rparr>"
proof -
  have a: "snd (pg_main (sample_env two_inserts '''' False pg_two_rows) (pg_params ''SELECT * FROM t'' None)) =
     Inr \<lparr>changed = False, stout_lines = ''SELECT 2'', query_results = two_rows,
          ansible_facts = [(None, two_rows)], rowcount = 2\<rparr>"
    by code_simp
  have b: "snd (impala_main (sample_env two_inserts '''' False impala_two_rows)
          (file_params ''batch.sql'' None)) =
     Inr \<lparr>changed = True, stout_lines = ''OK'', query_results = two_rows,
          ansible_facts = [], rowcount = 2\<rparr>"
    by code_simp
  from a b show ?thesis by blast
qed




text \<open>
  In every run that completes, of either module, the reported row count is the length of
  the returned result sequence; and when the PostgreSQL cursor reports a positive row count
  and \<^verbatim>\<open>fetchall\<close> raises \<^verbatim>\<open>ProgrammingError\<close>, lines 304 to 350 complete with an
  empty result sequence and a row count of 0.
\<close>

lemma completed_rowcount_is_length:
  "(snd (pg_main env p) = Inr out \<longrightarrow> rowcount out = int (length (query_results out))) \<and>
   (snd (impala_main ienv ip) = Inr iout \<longrightarrow> rowcount iout = int (length (query_results iout))) \<and>
   (0 < cursor_rowcount (cursor env) h \<and> fetchall (cursor env) h = ProgrammingError \<longrightarrow>
      (\<exists>r. snd (pg_report env p h tr) = Inr r \<and> query_results r = [] \<and> rowcount r = 0))"
proof (intro conjI impI)
  assume ok: "snd (pg_main env p) = Inr out"
  from pg_main_completed[OF ok] obtain q tr where
    m: "pg_main env p = pg_report env p [q] (tr @ [Execute q (prepare_args p)])" by blast
  from ok m have rep: "snd (pg_report env p [q] (tr @ [Execute q (prepare_args p)])) = Inr out"
    by simp
  show "rowcount out = int (length (query_results out))"
    by (rule pg_report_completed(3)[OF rep])
next
  assume ok: "snd (impala_main ienv ip) = Inr iout"
  from impala_main_completed[OF ok] obtain queries content where
    prep: "snd (impala_prepare ienv ip) = Inr (queries, content)" by blast
  show "rowcount iout = int (length (query_results iout))"
    by (rule impala_main_success_trace(5)[OF prep ok])
next
  assume "0 < cursor_rowcount (cursor env) h \<and> fetchall (cursor env) h = ProgrammingError"
  then show "\<exists>r. snd (pg_report env p h tr) = Inr r \<and> query_results r = [] \<and> rowcount r = 0"
    by (simp add: pg_report_def pg_fetch_def Let_def)
qed

text \<open>
  Claim C10. The reported row count is the length of the result sequence in every run that
  completes (\<open>completed_rowcount_is_length\<close>), and the PostgreSQL module reports 0 when
  the cursor counts three rows and \<^verbatim>\<open>fetchall\<close> raises \<^verbatim>\<open>ProgrammingError\<close>. The
  Impala module does not: its handler names \<^verbatim>\<open>impala.error.ProgrammingError\<close> while
  no name \<^verbatim>\<open>impala\<close> is bound, so the same failure ends the run with
  \<^verbatim>\<open>NameError\<close> after the statements were executed and logged, without commit and
  without any reported row count.
\<close>

theorem swallowed_fetch_failure_name_error:
  "impala_main (sample_env two_inserts '''' False impala_update) (file_params ''batch.sql'' None) =
     (\<lparr>submitted = [''INSERT INTO t VALUES (1)'', ''INSERT INTO t VALUES (2);''],
       appended = ''INSERT INTO t VALUES (1)\<newline>INSERT INTO t VALUES (2);\<newline>'',
       trace = [Connect, ReadFile ''batch.sql'', OpenLog ''ran.log'',
                Execute ''INSERT INTO t VALUES (1)'' None,
                LogWrite ''INSERT INTO t VALUES (1)\<newline>'',
                Execute ''INSERT INTO t VALUES (2);'' None,
                LogWrite ''INSERT INTO t VALUES (2);\<newline>'', CloseLog]\<rparr>,
      Inl (NameError ''impala'')) \<and>
   snd (pg_main (sample_env two_inserts '''' False pg_update)
          (pg_params ''UPDATE t SET a = 1'' None)) =
     Inr \<lparr>changed = True, stout_lines = ''UPDATE 3'', query_results = [],
          ansible_facts = [(None, [])], rowcount = 0\<rparr>"
proof -
  have a: "impala_main (sample_env two_inserts '''' False impala_update)
             (file_params ''batch.sql'' None) =
     (\<lparr>submitted = [''INSERT INTO t VALUES (1)'', ''INSERT INTO t VALUES (2);''],
       appended = ''INSERT INTO t VALUES (1)\<newline>INSERT INTO t VALUES (2);\<newline>'',
       trace = [Connect, ReadFile ''batch.sql'', OpenLog ''ran.log'',
                Execute ''INSERT INTO t VALUES (1)'' None,
                LogWrite ''INSERT INTO t VALUES (1)\<newline>'',
                Execute ''INSERT INTO t VALUES (2);'' None,
                LogWrite ''INSERT INTO t VALUES (2);\<newline>'', CloseLog]\<rparr>,
      Inl (NameError ''impala''))"
    by code_simp
  have b: "snd (pg_main (sample_env two_inserts '''' False pg_update)
          (pg_params ''UPDATE t SET a = 1'' None)) =
     Inr \<lparr>changed = True, stout_lines = ''UPDATE 3'', query_results = [],
          ansible_facts = [(None, [])], rowcount = 0\<rparr>"
    by code_simp
  from a b show ?thesis by blast
qed

end
